theory Spec2Isabelle
  imports Main
begin

section \<open>JavaScript values\<close>

text \<open>
  The values the three components handle: form fields are strings, \<open>sentViaEmail\<close> is a
  boolean, and a property that is absent reads as \<open>undefined\<close>.  An object is the
  function from its property names to their values.
\<close>

datatype jsval = Undefined | Str string | Bool bool

fun truthy :: "jsval \<Rightarrow> bool" where
  "truthy Undefined = False"
| "truthy (Str s) = (s \<noteq> [])"
| "truthy (Bool b) = b"

text \<open>The operator \<open>a || b\<close>.\<close>

definition js_or :: "jsval \<Rightarrow> jsval \<Rightarrow> jsval" where
  "js_or a b = (if truthy a then a else b)"

type_synonym obj = "string \<Rightarrow> jsval"

definition empty_obj :: obj where
  "empty_obj = (\<lambda>k. Undefined)"

text \<open>An optional string (\<open>string | undefined\<close>) used as a condition.\<close>

fun truthy_opt :: "string option \<Rightarrow> bool" where
  "truthy_opt None = False"
| "truthy_opt (Some s) = (s \<noteq> [])"


section \<open>The validation schemas\<close>

text \<open>
  A schema is the chain of builder calls the source writes after \<open>Yup.string()\<close> or
  \<open>Yup.boolean()\<close>.  \<open>when(ref, {is, then, otherwise})\<close> reads \<open>ref\<close> from the
  validation context (\<open>$name\<close>) or from a sibling field (\<open>name\<close>), compares it with
  \<open>is\<close> by strict equality and applies the builder calls of the branch taken; a
  missing \<open>otherwise\<close> applies nothing.  In the three schemas of the source every
  \<open>when\<close> closes its chain, so the calls apply in the order they are written.
\<close>

datatype yref = Context string | Sibling string

datatype ytest = Required | NotRequired | EmailFormat | Max nat | Min nat

datatype ybuild = Test ytest | When yref jsval "ytest list" "ytest list"

datatype ykind = YString | YBoolean

type_synonym yschema = "ykind \<times> ybuild list"

type_synonym yshape = "(string \<times> yschema) list"

fun lookup_ref :: "obj \<Rightarrow> obj \<Rightarrow> yref \<Rightarrow> jsval" where
  "lookup_ref ctx parent (Context k) = ctx k"
| "lookup_ref ctx parent (Sibling k) = parent k"

fun resolve :: "obj \<Rightarrow> obj \<Rightarrow> ybuild list \<Rightarrow> ytest list" where
  "resolve ctx parent [] = []"
| "resolve ctx parent (Test t # bs) = t # resolve ctx parent bs"
| "resolve ctx parent (When r v thn othw # bs) =
     (if lookup_ref ctx parent r = v then thn else othw) @ resolve ctx parent bs"

text \<open>Of \<open>required()\<close> and \<open>notRequired()\<close> the later call decides; a fresh schema is optional.\<close>

fun required_after :: "bool \<Rightarrow> ytest \<Rightarrow> bool" where
  "required_after b Required = True"
| "required_after b NotRequired = False"
| "required_after b EmailFormat = b"
| "required_after b (Max n) = b"
| "required_after b (Min n) = b"

definition is_required :: "ytest list \<Rightarrow> bool" where
  "is_required ts = foldl required_after False ts"

datatype yerror = ErrRequired | ErrEmail | ErrMax nat | ErrMin nat

text \<open>
  The tests of a string schema on a present value.  The format of an e-mail address is
  the validation library's regular expression, a parameter here; as in the library, the
  empty string passes the format test.
\<close>

fun run_test :: "(string \<Rightarrow> bool) \<Rightarrow> string \<Rightarrow> ytest \<Rightarrow> yerror list" where
  "run_test is_email s Required = []"
| "run_test is_email s NotRequired = []"
| "run_test is_email s EmailFormat = (if s = [] \<or> is_email s then [] else [ErrEmail])"
| "run_test is_email s (Max n) = (if length s \<le> n then [] else [ErrMax n])"
| "run_test is_email s (Min n) = (if n \<le> length s then [] else [ErrMin n])"

text \<open>
  A required field fails on \<open>undefined\<close> and, for a string, on the empty string; the
  other tests are skipped on an absent value.
\<close>

fun validate_value :: "(string \<Rightarrow> bool) \<Rightarrow> ytest list \<Rightarrow> jsval \<Rightarrow> yerror list" where
  "validate_value is_email ts Undefined = (if is_required ts then [ErrRequired] else [])"
| "validate_value is_email ts (Bool b) = []"
| "validate_value is_email ts (Str s) =
     (if is_required ts \<and> s = [] then [ErrRequired] else [])
       @ concat (map (run_test is_email s) ts)"

definition field_errors :: "(string \<Rightarrow> bool) \<Rightarrow> obj \<Rightarrow> obj \<Rightarrow> string \<times> yschema \<Rightarrow> string \<times> yerror list" where
  "field_errors is_email ctx vals fs =
     (fst fs, validate_value is_email (resolve ctx vals (snd (snd fs))) (vals (fst fs)))"

text \<open>The fields in error, each with its errors: \<open>formik.errors\<close> after a validation.\<close>

definition validate :: "(string \<Rightarrow> bool) \<Rightarrow> yshape \<Rightarrow> obj \<Rightarrow> obj \<Rightarrow> (string \<times> yerror list) list" where
  "validate is_email shape ctx vals =
     filter (\<lambda>fe. snd fe \<noteq> []) (map (field_errors is_email ctx vals) shape)"

definition field_required :: "yshape \<Rightarrow> obj \<Rightarrow> obj \<Rightarrow> string \<Rightarrow> bool" where
  "field_required shape ctx vals f =
     (case map_of shape f of
        None \<Rightarrow> False
      | Some sch \<Rightarrow> is_required (resolve ctx vals (snd sch)))"

text \<open>
  How the form library validates.  It first prepares the values: an empty string becomes
  \<open>undefined\<close>.  It then validates the prepared values against the schema with the
  prepared values themselves as the context.  The three components write
  \<open>validationContext: { step }\<close> in the configuration of the form; the form has no
  such option and does not read it, so a reference \<open>$step\<close> of a schema is looked up
  among the values.
\<close>

definition prepareDataForValidation :: "obj \<Rightarrow> obj" where
  "prepareDataForValidation vals = (\<lambda>k. if vals k = Str [] then Undefined else vals k)"

definition validateYupSchema :: "(string \<Rightarrow> bool) \<Rightarrow> yshape \<Rightarrow> obj \<Rightarrow> (string \<times> yerror list) list" where
  "validateYupSchema is_email shape vals =
     validate is_email shape (prepareDataForValidation vals) (prepareDataForValidation vals)"

text \<open>
  \<open>maxLengthPolicies\<close> comes from \<open>@/lib/common\<close>: the schemas take it as a parameter,
  the function from a policy's key to its length.
\<close>

text \<open>\<open>JoinUserSchema\<close> of \<open>Join.tsx\<close>.\<close>

definition JoinUserSchema :: "(string \<Rightarrow> nat) \<Rightarrow> yshape" where
  "JoinUserSchema maxLengthPolicies =
     [(''name'', YString, [Test Required, Test (Max (maxLengthPolicies ''name''))]),
      (''email'', YString,
         [Test Required, Test EmailFormat, Test (Max (maxLengthPolicies ''email''))]),
      (''otp'', YString, [When (Context ''step'') (Str ''otp'') [Required] [NotRequired]]),
      (''team'', YString,
         [Test Required, Test (Min 3), Test (Max (maxLengthPolicies ''team''))])]"

text \<open>\<open>JoinUserSchema\<close> of \<open>JoinWithInvitation.tsx\<close>.\<close>

definition JoinUserSchema_invitation :: "(string \<Rightarrow> nat) \<Rightarrow> yshape" where
  "JoinUserSchema_invitation maxLengthPolicies =
     [(''name'', YString, [Test Required, Test (Max (maxLengthPolicies ''name''))]),
      (''otp'', YString, [When (Context ''step'') (Str ''otp'') [Required] [NotRequired]]),
      (''sentViaEmail'', YBoolean, [Test Required]),
      (''email'', YString,
         [Test (Max (maxLengthPolicies ''email'')),
          When (Sibling ''sentViaEmail'') (Bool False)
            [Required, EmailFormat, Max (maxLengthPolicies ''email'')] []])]"

text \<open>The \<open>validationSchema\<close> of the login page.\<close>

definition login_validationSchema :: "(string \<Rightarrow> nat) \<Rightarrow> yshape" where
  "login_validationSchema maxLengthPolicies =
     [(''email'', YString,
         [Test Required, Test EmailFormat, Test (Max (maxLengthPolicies ''email''))]),
      (''otp'', YString, [When (Context ''step'') (Str ''otp'') [Required] [NotRequired]])]"

text \<open>
  The \<open>step\<close> state of the login page (\<open>'email' | 'otp'\<close>) and of the two join
  components (\<open>'form' | 'otp'\<close>).
\<close>

datatype login_step = LEmail | LOtp

datatype join_step = JForm | JOtp


section \<open>The provider, the effects and the environment\<close>

text \<open>
  What a provider call returns: \<open>res.success\<close>, \<open>res.message\<close> and
  \<open>res.data?.access_token\<close> (\<open>None\<close> when \<open>data\<close> or the token is absent).
\<close>

record auth_result =
  success :: bool
  message :: string
  access_token :: "string option"

text \<open>The string of an optional string, read where the condition has found it truthy.\<close>

definition string_of_opt :: "string option \<Rightarrow> string" where
  "string_of_opt tk = (case tk of None \<Rightarrow> [] | Some s \<Rightarrow> s)"

datatype call = SignUp jsval | SignIn jsval | VerifyOTP jsval

text \<open>
  What a handler does to the outside, in the order it does it: the provider call it
  awaits, \<open>sessionStorage.setItem\<close>, \<open>router.push\<close>, \<open>toast.error\<close> and
  \<open>toast.success\<close>.
\<close>

datatype effect =
    Call call
  | SetItem string string
  | RouterPush string
  | ToastError string
  | ToastSuccess string

fun is_SetItem :: "effect \<Rightarrow> bool" where
  "is_SetItem (SetItem k v) = True"
| "is_SetItem (Call c) = False"
| "is_SetItem (RouterPush u) = False"
| "is_SetItem (ToastError m) = False"
| "is_SetItem (ToastSuccess m) = False"

text \<open>The session store after the effects, from the store before them.\<close>

fun storage_after :: "effect list \<Rightarrow> (string \<Rightarrow> string option) \<Rightarrow> (string \<Rightarrow> string option)" where
  "storage_after [] store = store"
| "storage_after (SetItem k v # fx) store = storage_after fx (store(k := Some v))"
| "storage_after (Call c # fx) store = storage_after fx store"
| "storage_after (RouterPush u # fx) store = storage_after fx store"
| "storage_after (ToastError m # fx) store = storage_after fx store"
| "storage_after (ToastSuccess m # fx) store = storage_after fx store"

text \<open>
  What the components take from outside the repository's files: the e-mail format of
  the validation library, \<open>maxLengthPolicies\<close>, \<open>env.redirectIfAuthenticated\<close> and the
  translation function \<open>t\<close>.
\<close>

record env =
  env_is_email :: "string \<Rightarrow> bool"
  env_maxLengthPolicies :: "string \<Rightarrow> nat"
  env_redirectIfAuthenticated :: string
  env_t :: "string \<Rightarrow> string"


section \<open>The form state and the rendered inputs\<close>

text \<open>
  The state the three components share: \<open>step\<close>, \<open>recaptchaToken\<close> and the form's
  values (\<open>formik.values\<close>).
\<close>

record 's form_state =
  step :: 's
  recaptchaToken :: string
  formValues :: obj

text \<open>
  An \<open>InputWithLabel\<close> as rendered: its \<open>name\<close> (if it has one), its \<open>value\<close>,
  whether it is \<open>disabled\<close>, and whether \<open>formik.handleChange\<close> is its \<open>onChange\<close>.
\<close>

record input =
  input_name :: "string option"
  input_value :: jsval
  disabled :: bool
  handleChange :: bool

definition find_input :: "input list \<Rightarrow> string \<Rightarrow> input option" where
  "find_input inputs f = find (\<lambda>i. input_name i = Some f) inputs"

text \<open>
  A field is editable when an input of that name is rendered, enabled, with the change
  handler: a disabled input takes no user input, and \<open>handleChange\<close> stores what is
  typed under the input's name.
\<close>

definition editable :: "input list \<Rightarrow> string \<Rightarrow> bool" where
  "editable inputs f =
     (case find_input inputs f of
        None \<Rightarrow> False
      | Some i \<Rightarrow> handleChange i \<and> \<not> disabled i)"

definition user_types :: "input list \<Rightarrow> string \<Rightarrow> string \<Rightarrow> ('s, 'z) form_state_scheme \<Rightarrow> ('s, 'z) form_state_scheme" where
  "user_types inputs f v st =
     (if editable inputs f then st\<lparr>formValues := (formValues st)(f := Str v)\<rparr> else st)"


section \<open>The login page\<close>

text \<open>
  The page's \<open>message\<close> state (\<open>text\<close> and \<open>status\<close>, each nullable) on top of
  the shared state, and the redirect target, from the \<open>token\<close> of the query string
  (absent or a string) and \<open>env.redirectIfAuthenticated\<close>.
\<close>

record Message =
  message_text :: "string option"
  message_status :: "string option"

record login_state = "login_step form_state" +
  login_message :: Message

definition redirectUrl :: "string option \<Rightarrow> string \<Rightarrow> string" where
  "redirectUrl token redirectIfAuthenticated =
     (if truthy_opt token then ''/invitations/'' @ string_of_opt token
      else redirectIfAuthenticated)"

definition login_initial :: login_state where
  "login_initial =
     \<lparr>step = LEmail, recaptchaToken = [],
      formValues = empty_obj(''email'' := Str [], ''otp'' := Str []),
      login_message = \<lparr>message_text = None, message_status = None\<rparr>\<rparr>"

text \<open>
  \<open>onSubmit\<close> of the login page.  \<open>hawcx\<close> is the provider \<open>getHawcxAuth()\<close> hands
  out, as this submission meets it: the result it gives to the one call the handler
  awaits.  The handler clears the message first.
\<close>

definition login_onSubmit ::
  "env \<Rightarrow> string option \<Rightarrow> (call \<Rightarrow> auth_result) \<Rightarrow> login_state \<Rightarrow> login_state \<times> effect list" where
  "login_onSubmit e token hawcx st =
     (let st0 = st\<lparr>login_message := \<lparr>message_text = None, message_status = None\<rparr>\<rparr> in
      if step st = LEmail then
        (let c = SignIn (formValues st ''email''); res = hawcx c in
         if success res \<and> truthy_opt (access_token res) then
           (st0, [Call c, SetItem ''access_token'' (string_of_opt (access_token res)),
                  RouterPush (redirectUrl token (env_redirectIfAuthenticated e))])
         else if success res then (st0\<lparr>step := LOtp\<rparr>, [Call c])
         else (st0\<lparr>login_message :=
                 \<lparr>message_text = Some (message res), message_status = Some ''error''\<rparr>\<rparr>,
               [Call c]))
      else
        (let c = VerifyOTP (formValues st ''otp''); verify = hawcx c in
         if success verify then
           (st0, [Call c]
              @ (if truthy_opt (access_token verify)
                 then [SetItem ''access_token'' (string_of_opt (access_token verify))] else [])
              @ [RouterPush (redirectUrl token (env_redirectIfAuthenticated e))])
         else (st0\<lparr>login_message :=
                 \<lparr>message_text = Some (message verify), message_status = Some ''error''\<rparr>\<rparr>,
               [Call c])))"

text \<open>The inputs the login page renders: e-mail always, the code in the \<open>otp\<close> step.\<close>

definition login_inputs :: "login_state \<Rightarrow> input list" where
  "login_inputs st =
     [\<lparr>input_name = Some ''email'', input_value = formValues st ''email'',
       disabled = (step st = LOtp), handleChange = True\<rparr>]
     @ (if step st = LOtp
        then [\<lparr>input_name = Some ''otp'', input_value = formValues st ''otp'',
               disabled = False, handleChange = True\<rparr>]
        else [])"

text \<open>
  The alert above the form: rendered when the message has a text and a status, both
  truthy, with the status and the translation \<open>t(message.text)\<close> as its content.
\<close>

definition login_alert :: "env \<Rightarrow> login_state \<Rightarrow> (string \<times> string) option" where
  "login_alert e st =
     (if truthy_opt (message_text (login_message st))
         \<and> truthy_opt (message_status (login_message st))
      then Some (string_of_opt (message_status (login_message st)),
                 env_t e (string_of_opt (message_text (login_message st))))
      else None)"

text \<open>The provider call a submission of the login page makes, by the step it is in.\<close>

definition login_call :: "login_state \<Rightarrow> call" where
  "login_call st =
     (if step st = LEmail then SignIn (formValues st ''email'')
      else VerifyOTP (formValues st ''otp''))"

text \<open>
  \<open>formik.handleSubmit\<close> with the page's configuration: the values are validated
  against the schema as the form library does it, and \<open>onSubmit\<close> runs, with the
  values as they are, only when no field is in error.
\<close>

definition login_handleSubmit ::
  "env \<Rightarrow> string option \<Rightarrow> (call \<Rightarrow> auth_result) \<Rightarrow> login_state \<Rightarrow> login_state \<times> effect list" where
  "login_handleSubmit e token hawcx st =
     (if validateYupSchema (env_is_email e)
           (login_validationSchema (env_maxLengthPolicies e)) (formValues st) = []
      then login_onSubmit e token hawcx st
      else (st, []))"


section \<open>The two join components\<close>

type_synonym join_state = "join_step form_state"

definition join_initial :: join_state where
  "join_initial =
     \<lparr>step = JForm, recaptchaToken = [],
      formValues = empty_obj(''name'' := Str [], ''email'' := Str [], ''otp'' := Str [],
                             ''team'' := Str [])\<rparr>"

text \<open>\<open>onSubmit\<close> of \<open>Join.tsx\<close>.\<close>

definition join_onSubmit ::
  "env \<Rightarrow> (call \<Rightarrow> auth_result) \<Rightarrow> join_state \<Rightarrow> join_state \<times> effect list" where
  "join_onSubmit e hawcx st =
     (if step st = JForm then
        (let c = SignUp (formValues st ''email''); res = hawcx c in
         if success res then (st\<lparr>step := JOtp\<rparr>, [Call c])
         else (st, [Call c, ToastError (message res)]))
      else
        (let c = VerifyOTP (formValues st ''otp''); verify = hawcx c in
         if success verify then
           (st, [Call c, ToastSuccess (env_t e ''successfully-joined''),
                 RouterPush ''/auth/login''])
         else (st, [Call c, ToastError (message verify)])))"

text \<open>The provider call a submission of either join form makes, by the step it is in.\<close>

definition join_call :: "join_state \<Rightarrow> call" where
  "join_call st =
     (if step st = JForm then SignUp (formValues st ''email'')
      else VerifyOTP (formValues st ''otp''))"

definition join_inputs :: "join_state \<Rightarrow> input list" where
  "join_inputs st =
     [\<lparr>input_name = Some ''name'', input_value = formValues st ''name'',
       disabled = False, handleChange = True\<rparr>,
      \<lparr>input_name = Some ''team'', input_value = formValues st ''team'',
       disabled = False, handleChange = True\<rparr>,
      \<lparr>input_name = Some ''email'', input_value = formValues st ''email'',
       disabled = False, handleChange = True\<rparr>]
     @ (if step st = JOtp
        then [\<lparr>input_name = Some ''otp'', input_value = formValues st ''otp'',
               disabled = False, handleChange = True\<rparr>]
        else [])"

definition join_handleSubmit ::
  "env \<Rightarrow> (call \<Rightarrow> auth_result) \<Rightarrow> join_state \<Rightarrow> join_state \<times> effect list" where
  "join_handleSubmit e hawcx st =
     (if validateYupSchema (env_is_email e)
           (JoinUserSchema (env_maxLengthPolicies e)) (formValues st) = []
      then join_onSubmit e hawcx st
      else (st, []))"

text \<open>
  \<open>JoinWithInvitation.tsx\<close>: the invitation the \<open>useInvitation\<close> hook supplies
  (\<open>None\<close> until it has loaded) and the \<open>inviteToken\<close> property.
\<close>

record invitation =
  invitation_email :: "string option"
  sentViaEmail :: bool

definition invite_initialValues :: "invitation option \<Rightarrow> obj" where
  "invite_initialValues invit =
     empty_obj(''name'' := Str [], ''email'' := Str [], ''otp'' := Str [],
               ''sentViaEmail'' :=
                  js_or (case invit of None \<Rightarrow> Undefined | Some i \<Rightarrow> Bool (sentViaEmail i))
                        (Bool True))"

text \<open>
  The form starts from \<open>initialValues\<close>; \<open>enableReinitialize\<close> resets it when they
  change, and they are the same for every invitation.
\<close>

definition invite_initial :: "invitation option \<Rightarrow> join_state" where
  "invite_initial invit =
     \<lparr>step = JForm, recaptchaToken = [], formValues = invite_initialValues invit\<rparr>"

definition invite_onSubmit ::
  "env \<Rightarrow> string \<Rightarrow> (call \<Rightarrow> auth_result) \<Rightarrow> join_state \<Rightarrow> join_state \<times> effect list" where
  "invite_onSubmit e inviteToken hawcx st =
     (if step st = JForm then
        (let c = SignUp (formValues st ''email''); res = hawcx c in
         if success res then (st\<lparr>step := JOtp\<rparr>, [Call c])
         else (st, [Call c, ToastError (message res)]))
      else
        (let c = VerifyOTP (formValues st ''otp''); verify = hawcx c in
         if success verify then
           (st, [Call c, ToastSuccess (env_t e ''successfully-joined''),
                 RouterPush (''/auth/login?token='' @ inviteToken)])
         else (st, [Call c, ToastError (message verify)])))"

text \<open>
  The form is rendered once the invitation has loaded.  An invitation sent by e-mail
  shows its address in a disabled input with no name and no change handler.
\<close>

definition invite_inputs :: "invitation \<Rightarrow> join_state \<Rightarrow> input list" where
  "invite_inputs invit st =
     [\<lparr>input_name = Some ''name'', input_value = formValues st ''name'',
       disabled = False, handleChange = True\<rparr>,
      (if sentViaEmail invit
       then \<lparr>input_name = None,
             input_value = (case invitation_email invit of None \<Rightarrow> Undefined | Some a \<Rightarrow> Str a),
             disabled = True, handleChange = False\<rparr>
       else \<lparr>input_name = Some ''email'', input_value = formValues st ''email'',
             disabled = False, handleChange = True\<rparr>)]
     @ (if step st = JOtp
        then [\<lparr>input_name = Some ''otp'', input_value = formValues st ''otp'',
               disabled = False, handleChange = True\<rparr>]
        else [])"

definition invite_handleSubmit ::
  "env \<Rightarrow> string \<Rightarrow> (call \<Rightarrow> auth_result) \<Rightarrow> join_state \<Rightarrow> join_state \<times> effect list" where
  "invite_handleSubmit e inviteToken hawcx st =
     (if validateYupSchema (env_is_email e)
           (JoinUserSchema_invitation (env_maxLengthPolicies e)) (formValues st) = []
      then invite_onSubmit e inviteToken hawcx st
      else (st, []))"


section \<open>Runs\<close>

text \<open>
  What happens to a mounted form: the user types into a field, the CAPTCHA widget
  reports a token (\<open>onChange={setRecaptchaToken}\<close>), or the form is submitted and the
  provider answers the call of that submission.
\<close>

datatype event = Types string string | Captcha string | Submits "call \<Rightarrow> auth_result"

fun login_event :: "env \<Rightarrow> string option \<Rightarrow> login_state \<Rightarrow> event \<Rightarrow> login_state \<times> effect list" where
  "login_event e token st (Types f v) = (user_types (login_inputs st) f v st, [])"
| "login_event e token st (Captcha r) = (st\<lparr>recaptchaToken := r\<rparr>, [])"
| "login_event e token st (Submits hawcx) = login_handleSubmit e token hawcx st"

fun join_event :: "env \<Rightarrow> join_state \<Rightarrow> event \<Rightarrow> join_state \<times> effect list" where
  "join_event e st (Types f v) = (user_types (join_inputs st) f v st, [])"
| "join_event e st (Captcha r) = (st\<lparr>recaptchaToken := r\<rparr>, [])"
| "join_event e st (Submits hawcx) = join_handleSubmit e hawcx st"

fun invite_event :: "env \<Rightarrow> string \<Rightarrow> invitation \<Rightarrow> join_state \<Rightarrow> event \<Rightarrow> join_state \<times> effect list" where
  "invite_event e inviteToken invit st (Types f v) = (user_types (invite_inputs invit st) f v st, [])"
| "invite_event e inviteToken invit st (Captcha r) = (st\<lparr>recaptchaToken := r\<rparr>, [])"
| "invite_event e inviteToken invit st (Submits hawcx) = invite_handleSubmit e inviteToken hawcx st"

text \<open>A run: the events in order, the effects of all of them in order.\<close>

fun run :: "('s \<Rightarrow> event \<Rightarrow> 's \<times> effect list) \<Rightarrow> 's \<Rightarrow> event list \<Rightarrow> 's \<times> effect list" where
  "run handler st [] = (st, [])"
| "run handler st (ev # evs) =
     (let r1 = handler st ev; r2 = run handler (fst r1) evs
      in (fst r2, snd r1 @ snd r2))"

text \<open>The same events with every CAPTCHA token blanked.\<close>

fun erase_captcha :: "event \<Rightarrow> event" where
  "erase_captcha (Captcha r) = Captcha []"
| "erase_captcha (Types f v) = Types f v"
| "erase_captcha (Submits hawcx) = Submits hawcx"

section \<open>Sample inputs\<close>

text \<open>
  The inputs of the scenarios: an environment, a second one whose translation knows the
  message \<open>invalid-otp\<close>, a provider that gives the same result to every call, the
  results a provider gives, an invitation that was not sent by e-mail and one that was,
  and forms filled in at each step.
\<close>

definition sample_env :: env where
  "sample_env =
     \<lparr>env_is_email = (\<lambda>s. CHR ''@'' \<in> set s), env_maxLengthPolicies = (\<lambda>k. 104),
      env_redirectIfAuthenticated = ''/dashboard'', env_t = (\<lambda>k. k)\<rparr>"

definition translating_env :: env where
  "translating_env =
     sample_env\<lparr>env_t := (\<lambda>k. if k = ''invalid-otp'' then ''That code is not valid'' else k)\<rparr>"

definition answers :: "auth_result \<Rightarrow> call \<Rightarrow> auth_result" where
  "answers r c = r"

definition succeeded :: "string option \<Rightarrow> auth_result" where
  "succeeded tk = \<lparr>success = True, message = [], access_token = tk\<rparr>"

definition failed :: "string \<Rightarrow> auth_result" where
  "failed m = \<lparr>success = False, message = m, access_token = None\<rparr>"

definition invitation_by_link :: invitation where
  "invitation_by_link = \<lparr>invitation_email = None, sentViaEmail = False\<rparr>"

definition invitation_by_email :: invitation where
  "invitation_by_email = \<lparr>invitation_email = Some ''a@b.com'', sentViaEmail = True\<rparr>"

definition login_filled :: login_state where
  "login_filled =
     login_initial\<lparr>formValues := (formValues login_initial)(''email'' := Str ''a@b.com'')\<rparr>"

definition login_verifying :: login_state where
  "login_verifying =
     login_filled\<lparr>step := LOtp,
                  formValues := (formValues login_filled)(''otp'' := Str ''123456'')\<rparr>"

definition join_filled :: join_state where
  "join_filled =
     join_initial\<lparr>formValues :=
       (formValues join_initial)(''name'' := Str ''Ann'', ''team'' := Str ''Acme'',
                                 ''email'' := Str ''a@b.com'')\<rparr>"

definition join_verifying :: join_state where
  "join_verifying =
     join_filled\<lparr>step := JOtp,
                 formValues := (formValues join_filled)(''otp'' := Str ''123456'')\<rparr>"

definition no_store :: "string \<Rightarrow> string option" where
  "no_store = (\<lambda>k. None)"


section \<open>Helper facts\<close>

lemma truthy_string_of_opt:
  "truthy_opt tk \<Longrightarrow> string_of_opt tk \<noteq> [] \<and> tk = Some (string_of_opt tk)"
  by (cases tk) (simp_all add: string_of_opt_def)

text \<open>The sample forms are states the components reach from their initial state.\<close>

lemma login_filled_reached:
  "fst (run (login_event sample_env None) login_initial [Types ''email'' ''a@b.com''])
     = login_filled"
  by (simp add: login_filled_def login_initial_def login_inputs_def find_input_def
        editable_def user_types_def)

lemma login_verifying_reached:
  "run (login_event sample_env None) login_filled
     [Submits (answers (succeeded None)), Types ''otp'' ''123456'']
   = (login_verifying, [Call (SignIn (Str ''a@b.com''))])"
  by (simp add: login_verifying_def login_filled_def login_initial_def empty_obj_def
        sample_env_def answers_def succeeded_def login_inputs_def find_input_def
        editable_def user_types_def validateYupSchema_def prepareDataForValidation_def
        validate_def field_errors_def is_required_def login_validationSchema_def
        login_handleSubmit_def login_onSubmit_def Let_def)

lemma join_filled_reached:
  "fst (run (join_event sample_env) join_initial
     [Types ''name'' ''Ann'', Types ''team'' ''Acme'', Types ''email'' ''a@b.com''])
   = join_filled"
  by (simp add: join_filled_def join_initial_def join_inputs_def find_input_def
        editable_def user_types_def fun_upd_twist)

lemma join_verifying_reached:
  "run (join_event sample_env) join_filled
     [Submits (answers (succeeded None)), Types ''otp'' ''123456'']
   = (join_verifying, [Call (SignUp (Str ''a@b.com''))])"
  by (simp add: join_verifying_def join_filled_def join_initial_def empty_obj_def
        sample_env_def answers_def succeeded_def join_inputs_def find_input_def
        editable_def user_types_def validateYupSchema_def prepareDataForValidation_def
        validate_def field_errors_def is_required_def JoinUserSchema_def
        join_handleSubmit_def join_onSubmit_def Let_def)


section \<open>Which fields validation requires\<close>

text \<open>
  Each of the three schemas requires \<open>otp\<close> exactly when the context it is resolved
  under has the step \<open>'otp'\<close>.  The forms validate with their values as the context,
  no input of a form is named \<open>step\<close>, and so no form has a value of that name: no form
  requires \<open>otp\<close>, in either step.
\<close>

lemma otp_required_by_context:
  "field_required (login_validationSchema mlp) ctx vals ''otp'' = (ctx ''step'' = Str ''otp'')
   \<and> field_required (JoinUserSchema mlp) ctx vals ''otp'' = (ctx ''step'' = Str ''otp'')
   \<and> field_required (JoinUserSchema_invitation mlp) ctx vals ''otp''
       = (ctx ''step'' = Str ''otp'')"
  by (simp add: field_required_def login_validationSchema_def JoinUserSchema_def
        JoinUserSchema_invitation_def is_required_def)

lemma otp_not_required_by_forms:
  assumes "vals ''step'' \<noteq> Str ''otp''"
  shows "\<not> field_required (login_validationSchema mlp) (prepareDataForValidation vals)
             (prepareDataForValidation vals) ''otp''"
    and "\<not> field_required (JoinUserSchema mlp) (prepareDataForValidation vals)
             (prepareDataForValidation vals) ''otp''"
    and "\<not> field_required (JoinUserSchema_invitation mlp) (prepareDataForValidation vals)
             (prepareDataForValidation vals) ''otp''"
  using assms by (simp_all add: otp_required_by_context prepareDataForValidation_def)

lemma login_event_no_step_value:
  "formValues st ''step'' = Undefined \<Longrightarrow>
   formValues (fst (login_event e token st ev)) ''step'' = Undefined"
  by (cases ev)
     (auto simp add: login_inputs_def find_input_def editable_def user_types_def
        login_handleSubmit_def login_onSubmit_def Let_def split: if_splits)

lemma join_event_no_step_value:
  "formValues st ''step'' = Undefined \<Longrightarrow>
   formValues (fst (join_event e st ev)) ''step'' = Undefined"
  by (cases ev)
     (auto simp add: join_inputs_def find_input_def editable_def user_types_def
        join_handleSubmit_def join_onSubmit_def Let_def split: if_splits)

lemma invite_event_no_step_value:
  "formValues st ''step'' = Undefined \<Longrightarrow>
   formValues (fst (invite_event e inviteToken invit st ev)) ''step'' = Undefined"
  by (cases ev)
     (auto simp add: invite_inputs_def find_input_def editable_def user_types_def
        invite_handleSubmit_def invite_onSubmit_def Let_def split: if_splits)

text \<open>
  C1, at the input where the code departs from the claim: each form brought to its
  \<open>'otp'\<close> step and submitted with the code left empty.  On the login page the first
  submission moves to the \<open>'otp'\<close> step; there validation does not require \<open>otp\<close>
  and reports no error, and the second submission calls \<open>verifyOTP\<close> with the empty
  string.  The two join forms do the same.
\<close>

theorem otp_not_required_in_otp_step:
  "step (fst (run (login_event sample_env None) login_filled
       [Submits (answers (succeeded None))])) = LOtp
   \<and> field_required (login_validationSchema (env_maxLengthPolicies sample_env))
        (prepareDataForValidation (formValues login_filled))
        (prepareDataForValidation (formValues login_filled)) ''otp'' = False
   \<and> validateYupSchema (env_is_email sample_env)
        (login_validationSchema (env_maxLengthPolicies sample_env))
        (formValues login_filled) = []
   \<and> snd (run (login_event sample_env None) login_filled
        [Submits (answers (succeeded None)), Submits (answers (succeeded (Some ''T2'')))])
       = [Call (SignIn (Str ''a@b.com'')), Call (VerifyOTP (Str [])),
          SetItem ''access_token'' ''T2'', RouterPush ''/dashboard'']
   \<and> snd (run (join_event sample_env) join_filled
        [Submits (answers (succeeded None)), Submits (answers (succeeded None))])
       = [Call (SignUp (Str ''a@b.com'')), Call (VerifyOTP (Str [])),
          ToastSuccess ''successfully-joined'', RouterPush ''/auth/login'']
   \<and> snd (run (invite_event sample_env ''INV1'' invitation_by_email)
        (invite_initial (Some invitation_by_email))
        [Types ''name'' ''Ann'', Submits (answers (succeeded None)),
         Submits (answers (succeeded None))])
       = [Call (SignUp (Str [])), Call (VerifyOTP (Str [])),
          ToastSuccess ''successfully-joined'', RouterPush ''/auth/login?token=INV1'']"
  by (simp add: login_filled_def login_initial_def join_filled_def join_initial_def
        invitation_by_email_def invite_initial_def invite_initialValues_def js_or_def
        empty_obj_def sample_env_def answers_def succeeded_def
        invite_inputs_def find_input_def editable_def user_types_def
        validateYupSchema_def prepareDataForValidation_def validate_def field_errors_def
        is_required_def field_required_def login_validationSchema_def JoinUserSchema_def
        JoinUserSchema_invitation_def login_handleSubmit_def login_onSubmit_def
        join_handleSubmit_def join_onSubmit_def invite_handleSubmit_def
        invite_onSubmit_def redirectUrl_def string_of_opt_def Let_def)


section \<open>Submissions\<close>

text \<open>
  C2.  A submission of the login page in the \<open>'email'\<close> step whose \<open>signIn\<close> succeeds:
  with an access token (a non-empty one), the handler calls \<open>signIn\<close>, stores the token
  under \<open>access_token\<close> in the session store and navigates to the redirect target, and
  the step is still \<open>'email'\<close>, so the \<open>'otp'\<close> step is not entered; without one it
  only calls \<open>signIn\<close> and moves to the \<open>'otp'\<close> step.
\<close>

theorem login_signIn_success:
  "step st = LEmail \<Longrightarrow> res = hawcx (SignIn (formValues st ''email'')) \<Longrightarrow> success res \<Longrightarrow>
   (truthy_opt (access_token res) \<longrightarrow>
      snd (login_onSubmit e token hawcx st)
        = [Call (SignIn (formValues st ''email'')),
           SetItem ''access_token'' (string_of_opt (access_token res)),
           RouterPush (redirectUrl token (env_redirectIfAuthenticated e))]
      \<and> step (fst (login_onSubmit e token hawcx st)) = LEmail
      \<and> storage_after (snd (login_onSubmit e token hawcx st)) store ''access_token''
          = access_token res)
   \<and> (\<not> truthy_opt (access_token res) \<longrightarrow>
      step (fst (login_onSubmit e token hawcx st)) = LOtp
      \<and> snd (login_onSubmit e token hawcx st) = [Call (SignIn (formValues st ''email''))])"
  by (cases "access_token (hawcx (SignIn (formValues st ''email'')))")
     (simp_all add: login_onSubmit_def Let_def string_of_opt_def)

theorem login_signIn_success_witness:
  "step login_filled = LEmail
   \<and> success (succeeded (Some ''T1''))
   \<and> snd (login_onSubmit sample_env None (answers (succeeded (Some ''T1''))) login_filled)
       = [Call (SignIn (Str ''a@b.com'')), SetItem ''access_token'' ''T1'',
          RouterPush ''/dashboard'']
   \<and> step (fst (login_onSubmit sample_env None (answers (succeeded (Some ''T1'')))
         login_filled)) = LEmail
   \<and> storage_after
        (snd (login_onSubmit sample_env None (answers (succeeded (Some ''T1''))) login_filled))
        no_store ''access_token'' = Some ''T1''
   \<and> step (fst (login_onSubmit sample_env None (answers (succeeded None)) login_filled))
       = LOtp"
  using login_signIn_success
    [of login_filled "succeeded (Some ''T1'')" "answers (succeeded (Some ''T1''))"
        sample_env None no_store]
    login_signIn_success
    [of login_filled "succeeded None" "answers (succeeded None)" sample_env None no_store]
  by (simp add: login_filled_def login_initial_def sample_env_def answers_def
        succeeded_def redirectUrl_def string_of_opt_def)

text \<open>
  C3, as amended.  A submission in the \<open>'otp'\<close> step whose \<open>verifyOTP\<close> succeeds.  On
  the login page: with a non-empty token the handler stores it under \<open>access_token\<close>
  and navigates to the redirect target; without one it navigates and stores nothing.  In
  the two join forms, whether or not the result carries a token: the handler reports
  success (\<open>toast.success\<close>), navigates to the login page and leaves the form state and
  the session store as they were.
\<close>

theorem verifyOTP_success:
  "step lst = LOtp \<Longrightarrow> step jst = JOtp \<Longrightarrow>
   lres = hl (VerifyOTP (formValues lst ''otp'')) \<Longrightarrow> success lres \<Longrightarrow>
   jres = hj (VerifyOTP (formValues jst ''otp'')) \<Longrightarrow> success jres \<Longrightarrow>
   (truthy_opt (access_token lres) \<longrightarrow>
      snd (login_onSubmit e token hl lst)
        = [Call (VerifyOTP (formValues lst ''otp'')),
           SetItem ''access_token'' (string_of_opt (access_token lres)),
           RouterPush (redirectUrl token (env_redirectIfAuthenticated e))]
      \<and> storage_after (snd (login_onSubmit e token hl lst)) store ''access_token''
          = access_token lres)
   \<and> (\<not> truthy_opt (access_token lres) \<longrightarrow>
      snd (login_onSubmit e token hl lst)
        = [Call (VerifyOTP (formValues lst ''otp'')),
           RouterPush (redirectUrl token (env_redirectIfAuthenticated e))])
   \<and> join_onSubmit e hj jst
        = (jst, [Call (VerifyOTP (formValues jst ''otp'')),
                 ToastSuccess (env_t e ''successfully-joined''), RouterPush ''/auth/login''])
   \<and> invite_onSubmit e inviteToken hj jst
        = (jst, [Call (VerifyOTP (formValues jst ''otp'')),
                 ToastSuccess (env_t e ''successfully-joined''),
                 RouterPush (''/auth/login?token='' @ inviteToken)])
   \<and> storage_after (snd (join_onSubmit e hj jst)) store = store
   \<and> storage_after (snd (invite_onSubmit e inviteToken hj jst)) store = store"
  by (cases "access_token (hl (VerifyOTP (formValues lst ''otp'')))")
     (simp_all add: login_onSubmit_def join_onSubmit_def invite_onSubmit_def Let_def
        string_of_opt_def)

theorem verifyOTP_success_witness:
  "step login_verifying = LOtp \<and> step join_verifying = JOtp
   \<and> success (succeeded (Some ''T2'')) \<and> success (succeeded None)
   \<and> snd (login_onSubmit sample_env None (answers (succeeded (Some ''T2''))) login_verifying)
       = [Call (VerifyOTP (Str ''123456'')), SetItem ''access_token'' ''T2'',
          RouterPush ''/dashboard'']
   \<and> storage_after
        (snd (login_onSubmit sample_env None (answers (succeeded (Some ''T2'')))
           login_verifying))
        no_store ''access_token'' = Some ''T2''
   \<and> snd (join_onSubmit sample_env (answers (succeeded None)) join_verifying)
       = [Call (VerifyOTP (Str ''123456'')), ToastSuccess ''successfully-joined'',
          RouterPush ''/auth/login'']
   \<and> snd (invite_onSubmit sample_env ''INV1'' (answers (succeeded None)) join_verifying)
       = [Call (VerifyOTP (Str ''123456'')), ToastSuccess ''successfully-joined'',
          RouterPush ''/auth/login?token=INV1'']"
  using verifyOTP_success
    [of login_verifying join_verifying "succeeded (Some ''T2'')"
        "answers (succeeded (Some ''T2''))" "succeeded None" "answers (succeeded None)"
        sample_env None no_store "''INV1''"]
  by (simp add: login_verifying_def login_filled_def login_initial_def
        join_verifying_def join_filled_def join_initial_def sample_env_def answers_def
        succeeded_def redirectUrl_def string_of_opt_def)

text \<open>
  The claim C3 as it was stated fails in the join forms: \<open>verifyOTP\<close> succeeds with the
  token \<open>T\<close>, and the plain signup form writes nothing to the session store.
\<close>

theorem join_verifyOTP_token_not_stored:
  "step join_verifying = JOtp
   \<and> success (succeeded (Some ''T''))
   \<and> truthy_opt (access_token (succeeded (Some ''T'')))
   \<and> snd (join_onSubmit sample_env (answers (succeeded (Some ''T''))) join_verifying)
       = [Call (VerifyOTP (Str ''123456'')), ToastSuccess ''successfully-joined'',
          RouterPush ''/auth/login'']
   \<and> storage_after
        (snd (join_onSubmit sample_env (answers (succeeded (Some ''T''))) join_verifying))
        no_store ''access_token'' = None"
  by (simp add: join_verifying_def join_filled_def join_initial_def sample_env_def
        answers_def succeeded_def no_store_def join_onSubmit_def Let_def)

text \<open>
  C5, as amended.  One submission writes the session store at most once.  The login
  page writes exactly when the provider call of the submission succeeds with a non-empty
  token, under the key \<open>access_token\<close>, and then it also navigates to the redirect
  target; the two join forms never write.  Nothing guards the write across submissions:
  in the \<open>'otp'\<close> step a second submission that the provider answers as the first has
  the same effects as the first, the write included, and repeating the effects leaves
  the store as the first left it.
\<close>

theorem session_store_written_per_submission:
  "res = hawcx (login_call st) \<Longrightarrow> fx = snd (login_onSubmit e token hawcx st) \<Longrightarrow>
   filter is_SetItem fx
     = (if success res \<and> truthy_opt (access_token res)
        then [SetItem ''access_token'' (string_of_opt (access_token res))] else [])
   \<and> (truthy_opt (access_token res) \<longrightarrow> string_of_opt (access_token res) \<noteq> [])
   \<and> (RouterPush (redirectUrl token (env_redirectIfAuthenticated e)) \<in> set fx)
       = (success res \<and> (step st = LOtp \<or> truthy_opt (access_token res)))
   \<and> filter is_SetItem (snd (join_onSubmit e hj jst)) = []
   \<and> filter is_SetItem (snd (invite_onSubmit e inviteToken hj jst)) = []
   \<and> (step st = LOtp \<longrightarrow>
        snd (login_onSubmit e token hawcx (fst (login_onSubmit e token hawcx st))) = fx)
   \<and> storage_after (fx @ fx) store = storage_after fx store"
  by (cases "step st")
     (auto simp add: login_onSubmit_def join_onSubmit_def invite_onSubmit_def login_call_def
        Let_def truthy_string_of_opt)

theorem session_store_written_per_submission_witness:
  "filter is_SetItem
     (snd (login_onSubmit sample_env None (answers (succeeded (Some ''T2''))) login_verifying))
     = [SetItem ''access_token'' ''T2'']
   \<and> RouterPush ''/dashboard''
       \<in> set (snd (login_onSubmit sample_env None (answers (succeeded (Some ''T2'')))
            login_verifying))
   \<and> filter is_SetItem (snd (join_onSubmit sample_env (answers (succeeded (Some ''T'')))
        join_verifying)) = []
   \<and> snd (login_onSubmit sample_env None (answers (succeeded (Some ''T2'')))
        (fst (login_onSubmit sample_env None (answers (succeeded (Some ''T2'')))
           login_verifying)))
       = snd (login_onSubmit sample_env None (answers (succeeded (Some ''T2'')))
           login_verifying)"
  using session_store_written_per_submission
    [of "succeeded (Some ''T2'')" "answers (succeeded (Some ''T2''))" login_verifying
        "snd (login_onSubmit sample_env None (answers (succeeded (Some ''T2'')))
           login_verifying)"
        sample_env None "answers (succeeded (Some ''T''))" join_verifying]
  by (simp add: login_verifying_def login_filled_def login_initial_def
        join_verifying_def join_filled_def join_initial_def sample_env_def answers_def
        succeeded_def login_call_def redirectUrl_def string_of_opt_def)

text \<open>
  The claim C5 as it was stated fails: from the initial login page, \<open>signIn\<close> succeeds
  without a token, and two submissions of the code follow, each answered with success
  and the token \<open>T2\<close>.  The run writes the session store twice.
\<close>

theorem login_two_verifications_two_writes:
  "filter is_SetItem
     (snd (run (login_event sample_env None) login_initial
        [Types ''email'' ''a@b.com'', Submits (answers (succeeded None)),
         Types ''otp'' ''123456'',
         Submits (answers (succeeded (Some ''T2''))),
         Submits (answers (succeeded (Some ''T2'')))]))
   = [SetItem ''access_token'' ''T2'', SetItem ''access_token'' ''T2'']"
  by (simp add: login_initial_def empty_obj_def sample_env_def answers_def succeeded_def
        login_inputs_def find_input_def editable_def user_types_def validateYupSchema_def
        prepareDataForValidation_def validate_def field_errors_def is_required_def
        login_validationSchema_def login_handleSubmit_def login_onSubmit_def Let_def
        redirectUrl_def string_of_opt_def)

text \<open>
  C6, as amended.  A submission whose provider call fails (\<open>success\<close> false).  The
  login page stores the message of the result, as it is, in its message state with the
  status \<open>error\<close>; its alert then shows the translation \<open>t(message)\<close>, and shows
  nothing when the message is empty.  The join forms pass the message, as it is, to
  \<open>toast.error\<close>.  In all three the step and the values of the form are unchanged, the
  session store is not written, and a further submission from the state reached makes
  the same provider call again.
\<close>

theorem provider_failure:
  "lres = hl (login_call lst) \<Longrightarrow> \<not> success lres \<Longrightarrow>
   jres = hj (join_call jst) \<Longrightarrow> \<not> success jres \<Longrightarrow>
   login_onSubmit e token hl lst
     = (lst\<lparr>login_message :=
             \<lparr>message_text = Some (message lres), message_status = Some ''error''\<rparr>\<rparr>,
        [Call (login_call lst)])
   \<and> login_alert e (fst (login_onSubmit e token hl lst))
       = (if message lres = [] then None else Some (''error'', env_t e (message lres)))
   \<and> join_onSubmit e hj jst = (jst, [Call (join_call jst), ToastError (message jres)])
   \<and> invite_onSubmit e inviteToken hj jst
       = (jst, [Call (join_call jst), ToastError (message jres)])
   \<and> step (fst (login_onSubmit e token hl lst)) = step lst
   \<and> formValues (fst (login_onSubmit e token hl lst)) = formValues lst
   \<and> storage_after (snd (login_onSubmit e token hl lst)) store = store
   \<and> storage_after (snd (join_onSubmit e hj jst)) store = store
   \<and> storage_after (snd (invite_onSubmit e inviteToken hj jst)) store = store
   \<and> take 1 (snd (login_onSubmit e token hl2 (fst (login_onSubmit e token hl lst))))
       = [Call (login_call lst)]
   \<and> take 1 (snd (join_onSubmit e hj2 (fst (join_onSubmit e hj jst))))
       = [Call (join_call jst)]
   \<and> take 1 (snd (invite_onSubmit e inviteToken hj2
         (fst (invite_onSubmit e inviteToken hj jst))))
       = [Call (join_call jst)]"
  by (cases "step lst"; cases "step jst")
     (simp_all add: login_onSubmit_def join_onSubmit_def invite_onSubmit_def login_call_def
        join_call_def login_alert_def string_of_opt_def Let_def)

theorem provider_failure_witness:
  "\<not> success (failed ''email-taken'')
   \<and> join_onSubmit sample_env (answers (failed ''email-taken'')) join_filled
       = (join_filled, [Call (SignUp (Str ''a@b.com'')), ToastError ''email-taken''])
   \<and> step (fst (login_onSubmit sample_env None (answers (failed ''email-taken''))
         login_filled)) = LEmail
   \<and> login_alert sample_env
        (fst (login_onSubmit sample_env None (answers (failed ''email-taken'')) login_filled))
       = Some (''error'', ''email-taken'')
   \<and> storage_after
        (snd (join_onSubmit sample_env (answers (failed ''email-taken'')) join_filled))
        no_store = no_store"
  using provider_failure
    [of "failed ''email-taken''" "answers (failed ''email-taken'')" login_filled
        "failed ''email-taken''" "answers (failed ''email-taken'')" join_filled
        sample_env None "''INV1''" no_store]
  by (simp add: login_filled_def login_initial_def join_filled_def join_initial_def
        sample_env_def answers_def failed_def login_call_def join_call_def
        login_alert_def string_of_opt_def)

text \<open>
  The claim C6 as it was stated fails on the login page: the message \<open>invalid-otp\<close> of
  a failed \<open>verifyOTP\<close> is shown as its translation, not as it is, and a failure with
  an empty message shows no alert.
\<close>

theorem login_failure_message_not_verbatim:
  "\<not> success (failed ''invalid-otp'')
   \<and> login_alert translating_env
        (fst (login_onSubmit translating_env None (answers (failed ''invalid-otp''))
           login_verifying))
       = Some (''error'', ''That code is not valid'')
   \<and> \<not> success (failed [])
   \<and> login_alert sample_env
        (fst (login_onSubmit sample_env None (answers (failed [])) login_verifying))
       = None"
  by (simp add: login_verifying_def login_filled_def login_initial_def sample_env_def
        translating_env_def answers_def failed_def login_onSubmit_def login_alert_def
        string_of_opt_def Let_def)


section \<open>The redirect target\<close>

text \<open>
  C7.  The redirect target is a function of the query's token and the configured
  default alone: the default when there is no token (or an empty one, which the
  condition takes as absent), and \<open>/invitations/\<close> followed by the token when there is
  one, whatever the default.  It is the only address the login page's handler navigates
  to.
\<close>

theorem redirectUrl_by_token:
  "redirectUrl None d = d
   \<and> redirectUrl (Some []) d = d
   \<and> (tk \<noteq> [] \<longrightarrow> redirectUrl (Some tk) d = ''/invitations/'' @ tk)
   \<and> (RouterPush u \<in> set (snd (login_onSubmit e token hawcx st))
        \<longrightarrow> u = redirectUrl token (env_redirectIfAuthenticated e))"
  by (auto simp add: redirectUrl_def string_of_opt_def login_onSubmit_def Let_def
        split: if_splits)

theorem redirectUrl_by_token_witness:
  "redirectUrl (Some ''INV1'') ''/dashboard'' = ''/invitations/INV1''
   \<and> redirectUrl (Some ''INV1'') ''/teams'' = ''/invitations/INV1''
   \<and> redirectUrl None ''/dashboard'' = ''/dashboard''
   \<and> RouterPush ''/invitations/INV1''
       \<in> set (snd (login_onSubmit sample_env (Some ''INV1'')
            (answers (succeeded (Some ''T1''))) login_filled))"
  using redirectUrl_by_token [of "''/dashboard''" "''INV1''" "''/invitations/INV1''"
      sample_env "Some ''INV1''" "answers (succeeded (Some ''T1''))" login_filled]
    redirectUrl_by_token [of "''/teams''" "''INV1''" "''/invitations/INV1''"
      sample_env "Some ''INV1''" "answers (succeeded (Some ''T1''))" login_filled]
  by (simp add: login_filled_def login_initial_def sample_env_def answers_def
        succeeded_def login_onSubmit_def Let_def redirectUrl_def string_of_opt_def)

section \<open>The e-mail field\<close>

text \<open>
  In the form of an invitation the value \<open>sentViaEmail\<close> starts as
  \<open>invitation?.sentViaEmail || true\<close>, which is \<open>true\<close> for every invitation, and no
  input of the form carries that name, so it stays \<open>true\<close>.  With it the schema never
  requires \<open>email\<close>; the input itself is fixed exactly when the invitation was sent by
  e-mail.
\<close>

lemma invite_initial_sentViaEmail:
  "formValues (invite_initial invit) ''sentViaEmail'' = Bool True"
  by (cases invit) (simp_all add: invite_initial_def invite_initialValues_def js_or_def)

lemma invite_event_sentViaEmail:
  "formValues st ''sentViaEmail'' = Bool True \<Longrightarrow>
   formValues (fst (invite_event e inviteToken invit st ev)) ''sentViaEmail'' = Bool True"
  by (cases ev)
     (auto simp add: invite_inputs_def find_input_def editable_def user_types_def
        invite_handleSubmit_def invite_onSubmit_def Let_def split: if_splits)

lemma invite_email_not_required:
  "formValues st ''sentViaEmail'' = Bool True \<Longrightarrow>
   \<not> field_required (JoinUserSchema_invitation mlp)
        (prepareDataForValidation (formValues st))
        (prepareDataForValidation (formValues st)) ''email''"
  by (simp add: field_required_def JoinUserSchema_invitation_def is_required_def
        prepareDataForValidation_def)

lemma invite_email_editable:
  "editable (invite_inputs invit st) ''email'' = (\<not> sentViaEmail invit)"
  by (simp add: invite_inputs_def find_input_def editable_def user_types_def)

text \<open>
  C4, at the input where the code departs from the claim: an invitation that was not
  sent by e-mail.  The form's \<open>sentViaEmail\<close> is \<open>true\<close> all the same, the e-mail input
  is editable, validation does not require \<open>email\<close>, and a submission with the name
  filled in and the e-mail left empty passes validation and calls \<open>signUp\<close> with the
  empty string.
\<close>

theorem invitation_by_link_email_not_required:
  "sentViaEmail invitation_by_link = False
   \<and> formValues (invite_initial (Some invitation_by_link)) ''sentViaEmail'' = Bool True
   \<and> editable (invite_inputs invitation_by_link (invite_initial (Some invitation_by_link)))
        ''email''
   \<and> field_required (JoinUserSchema_invitation (env_maxLengthPolicies sample_env))
        (prepareDataForValidation (formValues (invite_initial (Some invitation_by_link))))
        (prepareDataForValidation (formValues (invite_initial (Some invitation_by_link))))
        ''email'' = False
   \<and> snd (run (invite_event sample_env ''INV1'' invitation_by_link)
        (invite_initial (Some invitation_by_link))
        [Types ''name'' ''Ann'', Submits (answers (succeeded None))])
       = [Call (SignUp (Str []))]"
  by (simp add: invitation_by_link_def invite_initial_def invite_initialValues_def
        js_or_def empty_obj_def sample_env_def answers_def succeeded_def
        invite_inputs_def find_input_def editable_def user_types_def validateYupSchema_def
        prepareDataForValidation_def validate_def field_errors_def is_required_def
        field_required_def JoinUserSchema_invitation_def invite_handleSubmit_def
        invite_onSubmit_def Let_def)

text \<open>
  C10.  On the login page the e-mail input is rendered disabled exactly in the \<open>'otp'\<close>
  step, so the field is editable exactly in the \<open>'email'\<close> step: typing into it in the
  \<open>'otp'\<close> step changes nothing, and in the \<open>'email'\<close> step it sets the value.
\<close>

theorem login_email_input_locked_in_otp_step:
  "map_option disabled (find_input (login_inputs st) ''email'') = Some (step st = LOtp)
   \<and> editable (login_inputs st) ''email'' = (step st = LEmail)
   \<and> (step st = LOtp \<longrightarrow> login_event e token st (Types ''email'' v) = (st, []))
   \<and> (step st = LEmail \<longrightarrow>
        login_event e token st (Types ''email'' v)
          = (st\<lparr>formValues := (formValues st)(''email'' := Str v)\<rparr>, []))"
proof (cases "step st")
  case LEmail
  then show ?thesis
    by (simp add: login_inputs_def find_input_def editable_def user_types_def)
next
  case LOtp
  then show ?thesis
    by (simp add: login_inputs_def find_input_def editable_def user_types_def)
qed

theorem login_email_input_locked_in_otp_step_witness:
  "step login_verifying = LOtp
   \<and> map_option disabled (find_input (login_inputs login_verifying) ''email'') = Some True
   \<and> \<not> editable (login_inputs login_verifying) ''email''
   \<and> login_event sample_env None login_verifying (Types ''email'' ''x@y.z'')
       = (login_verifying, [])
   \<and> step login_initial = LEmail
   \<and> editable (login_inputs login_initial) ''email''
   \<and> fst (login_event sample_env None login_initial (Types ''email'' ''a@b.com''))
       = login_filled"
  using login_email_input_locked_in_otp_step
      [of login_verifying sample_env None "''x@y.z''"]
    login_email_input_locked_in_otp_step
      [of login_initial sample_env None "''a@b.com''"]
  by (simp add: login_verifying_def login_filled_def login_initial_def)


section \<open>The CAPTCHA token\<close>

text \<open>
  No handler reads \<open>recaptchaToken\<close>: a state with another token, given the same event
  with its own token blanked, does the same to the outside and reaches the same state
  up to the token.
\<close>

lemma login_inputs_recaptcha: "login_inputs (st\<lparr>recaptchaToken := r\<rparr>) = login_inputs st"
  by (simp add: login_inputs_def)

lemma join_inputs_recaptcha: "join_inputs (st\<lparr>recaptchaToken := r\<rparr>) = join_inputs st"
  by (simp add: join_inputs_def)

lemma invite_inputs_recaptcha:
  "invite_inputs invit (st\<lparr>recaptchaToken := r\<rparr>) = invite_inputs invit st"
  by (simp add: invite_inputs_def)

lemma user_types_recaptcha:
  "user_types inputs f v (st\<lparr>recaptchaToken := r\<rparr>)
     = (user_types inputs f v st)\<lparr>recaptchaToken := r\<rparr>"
  by (simp add: user_types_def)

lemma login_onSubmit_recaptcha:
  "login_onSubmit e token h (st\<lparr>recaptchaToken := r\<rparr>)
     = ((fst (login_onSubmit e token h st))\<lparr>recaptchaToken := r\<rparr>,
        snd (login_onSubmit e token h st))"
  by (simp add: login_onSubmit_def Let_def)

lemma join_onSubmit_recaptcha:
  "join_onSubmit e h (st\<lparr>recaptchaToken := r\<rparr>)
     = ((fst (join_onSubmit e h st))\<lparr>recaptchaToken := r\<rparr>, snd (join_onSubmit e h st))"
  by (simp add: join_onSubmit_def Let_def)

lemma invite_onSubmit_recaptcha:
  "invite_onSubmit e tok h (st\<lparr>recaptchaToken := r\<rparr>)
     = ((fst (invite_onSubmit e tok h st))\<lparr>recaptchaToken := r\<rparr>,
        snd (invite_onSubmit e tok h st))"
  by (simp add: invite_onSubmit_def Let_def)

lemma login_event_erase:
  "login_event e token (st\<lparr>recaptchaToken := []\<rparr>) (erase_captcha ev)
     = ((fst (login_event e token st ev))\<lparr>recaptchaToken := []\<rparr>,
        snd (login_event e token st ev))"
  by (cases ev)
     (simp_all add: login_handleSubmit_def login_onSubmit_recaptcha login_inputs_recaptcha
        user_types_recaptcha)

lemma join_event_erase:
  "join_event e (st\<lparr>recaptchaToken := []\<rparr>) (erase_captcha ev)
     = ((fst (join_event e st ev))\<lparr>recaptchaToken := []\<rparr>, snd (join_event e st ev))"
  by (cases ev)
     (simp_all add: join_handleSubmit_def join_onSubmit_recaptcha join_inputs_recaptcha
        user_types_recaptcha)

lemma invite_event_erase:
  "invite_event e tok invit (st\<lparr>recaptchaToken := []\<rparr>) (erase_captcha ev)
     = ((fst (invite_event e tok invit st ev))\<lparr>recaptchaToken := []\<rparr>,
        snd (invite_event e tok invit st ev))"
  by (cases ev)
     (simp_all add: invite_handleSubmit_def invite_onSubmit_recaptcha
        invite_inputs_recaptcha user_types_recaptcha)

text \<open>Lifted to runs, by induction on the events with the state generalised.\<close>

lemma run_erase:
  assumes "\<And>st ev. handler (st\<lparr>recaptchaToken := []\<rparr>) (erase_captcha ev)
             = ((fst (handler st ev))\<lparr>recaptchaToken := []\<rparr>, snd (handler st ev))"
  shows "snd (run handler (st\<lparr>recaptchaToken := []\<rparr>) (map erase_captcha evs))
           = snd (run handler st evs)"
proof (induction evs arbitrary: st)
  case Nil
  show ?case by simp
next
  case (Cons ev evs)
  show ?case by (simp add: assms Let_def Cons.IH)
qed

lemma run_blind:
  assumes h: "\<And>st ev. handler (st\<lparr>recaptchaToken := []\<rparr>) (erase_captcha ev)
             = ((fst (handler st ev))\<lparr>recaptchaToken := []\<rparr>, snd (handler st ev))"
    and evs: "map erase_captcha evs = map erase_captcha evs'"
  shows "snd (run handler (st\<lparr>recaptchaToken := r\<rparr>) evs)
           = snd (run handler (st\<lparr>recaptchaToken := r'\<rparr>) evs')"
proof -
  have "snd (run handler (st\<lparr>recaptchaToken := r\<rparr>) evs)
          = snd (run handler (st\<lparr>recaptchaToken := r\<rparr>\<lparr>recaptchaToken := []\<rparr>)
              (map erase_captcha evs))"
    by (rule run_erase [where handler = handler, OF h, symmetric])
  also have "\<dots> = snd (run handler (st\<lparr>recaptchaToken := r'\<rparr>\<lparr>recaptchaToken := []\<rparr>)
              (map erase_captcha evs'))"
    by (simp add: evs)
  also have "\<dots> = snd (run handler (st\<lparr>recaptchaToken := r'\<rparr>) evs')"
    by (rule run_erase [where handler = handler, OF h])
  finally show ?thesis .
qed

text \<open>
  C9.  In each of the three forms, two runs that differ only in CAPTCHA tokens (the
  token held at the start and the tokens the widget reports on the way; the typing, the
  submissions and the provider's answers are the same) have the same effects in the same
  order: the same provider calls with the same arguments, and the same writes,
  navigations and toasts.
\<close>

theorem recaptcha_token_never_forwarded:
  assumes "map erase_captcha evs = map erase_captcha evs'"
  shows "snd (run (login_event e token) (lst\<lparr>recaptchaToken := r\<rparr>) evs)
           = snd (run (login_event e token) (lst\<lparr>recaptchaToken := r'\<rparr>) evs')
       \<and> snd (run (join_event e) (jst\<lparr>recaptchaToken := r\<rparr>) evs)
           = snd (run (join_event e) (jst\<lparr>recaptchaToken := r'\<rparr>) evs')
       \<and> snd (run (invite_event e inviteToken invit) (jst\<lparr>recaptchaToken := r\<rparr>) evs)
           = snd (run (invite_event e inviteToken invit) (jst\<lparr>recaptchaToken := r'\<rparr>) evs')"
  using run_blind [where handler = "login_event e token", OF login_event_erase assms]
    run_blind [where handler = "join_event e", OF join_event_erase assms]
    run_blind [where handler = "invite_event e inviteToken invit", OF invite_event_erase assms]
  by blast

theorem recaptcha_token_never_forwarded_witness:
  "map erase_captcha
       [Types ''email'' ''a@b.com'', Captcha ''captcha-one'',
        Submits (answers (succeeded (Some ''T1'')))]
     = map erase_captcha
       [Types ''email'' ''a@b.com'', Captcha ''captcha-two'',
        Submits (answers (succeeded (Some ''T1'')))]
   \<and> snd (run (login_event sample_env None) (login_initial\<lparr>recaptchaToken := ''old''\<rparr>)
        [Types ''email'' ''a@b.com'', Captcha ''captcha-one'',
         Submits (answers (succeeded (Some ''T1'')))])
     = snd (run (login_event sample_env None) (login_initial\<lparr>recaptchaToken := []\<rparr>)
        [Types ''email'' ''a@b.com'', Captcha ''captcha-two'',
         Submits (answers (succeeded (Some ''T1'')))])"
proof -
  have same: "map erase_captcha
       [Types ''email'' ''a@b.com'', Captcha ''captcha-one'',
        Submits (answers (succeeded (Some ''T1'')))]
     = map erase_captcha
       [Types ''email'' ''a@b.com'', Captcha ''captcha-two'',
        Submits (answers (succeeded (Some ''T1'')))]"
    by simp
  show ?thesis
    using same recaptcha_token_never_forwarded
      [OF same, where e = sample_env and token = None and lst = login_initial
         and r = "''old''" and r' = "[]"]
    by blast
qed


end
